theory Spec2Isabelle
  imports Main "HOL-Library.Sublist"
begin

section \<open>Strings: the two library calls the URL conversion makes\<close>

text \<open>
  Go strings are byte sequences, as \<^typ>\<open>string\<close> is. \<open>strings.Replace(s, old, new, 1)\<close>
  replaces the leftmost occurrence of \<open>old\<close> in \<open>s\<close> by \<open>new\<close> and leaves \<open>s\<close> as it is when
  \<open>old\<close> does not occur; an empty \<open>old\<close> matches at the start of \<open>s\<close>. The source only
  ever passes the count 1.
\<close>

fun strings_Replace1 :: "string \<Rightarrow> string \<Rightarrow> string \<Rightarrow> string" where
  "strings_Replace1 [] old new = (if old = [] then new else [])"
| "strings_Replace1 (c # cs) old new =
     (if prefix old (c # cs) then new @ drop (length old) (c # cs)
      else c # strings_Replace1 cs old new)"

text \<open>\<open>strings.Contains(s, sub)\<close>: \<open>sub\<close> occurs somewhere in \<open>s\<close>.\<close>

fun strings_Contains :: "string \<Rightarrow> string \<Rightarrow> bool" where
  "strings_Contains [] sub = (sub = [])"
| "strings_Contains (c # cs) sub = (prefix sub (c # cs) \<or> strings_Contains cs sub)"

section \<open>Commit URLs\<close>

definition convertToCommitDetailURL :: "string \<Rightarrow> string \<Rightarrow> string" where
  "convertToCommitDetailURL uri commit =
     (let replaced = strings_Replace1 uri ''.git'' ''/commits'';
          replaced1 = strings_Replace1 replaced ''github.com'' ''api.github.com/repos''
      in replaced1 @ ''/'' @ commit)"

definition convertToCommitHistoryURL :: "string \<Rightarrow> string \<Rightarrow> string" where
  "convertToCommitHistoryURL uri commit =
     (let replaced = strings_Replace1 uri ''.git'' ''/commits''
      in strings_Replace1 replaced ''github.com'' ''api.github.com/repos'')"

text \<open>
  The transform as the specification words it, for comparison with the code: a
  \<^emph>\<open>trailing\<close> \<open>.git\<close> is replaced by \<open>/commits\<close>, then the \<open>github.com\<close> host segment
  (the leftmost occurrence, the host coming first in a URI) by \<open>api.github.com/repos\<close>,
  then \<open>/\<close> and the commit are appended.
\<close>

definition spec_commitDetailURL :: "string \<Rightarrow> string \<Rightarrow> string" where
  "spec_commitDetailURL uri commit =
     (let trimmed = (if suffix ''.git'' uri
                     then take (length uri - length ''.git'') uri @ ''/commits''
                     else uri)
      in strings_Replace1 trimmed ''github.com'' ''api.github.com/repos'' @ ''/'' @ commit)"

section \<open>Data model of the observer\<close>

text \<open>
  The struct declarations of package \<open>observer\<close> and of the libraries it uses are not
  among the files at hand; each record below has the fields the functions under
  verification read or write, under the source's names (prefixed, since field names are
  global here). A Go slice, nil or empty, is a list.
\<close>

text \<open>
  \<open>unstructured.Unstructured\<close>, a cluster object, through its four getters. The zero value
  has every getter return the empty string.
\<close>

record Unstructured =
  GetAPIVersion :: string
  GetKind :: string
  GetName :: string
  GetNamespace :: string

definition Unstructured_zero :: Unstructured where
  "Unstructured_zero = \<lparr>GetAPIVersion = [], GetKind = [], GetName = [], GetNamespace = []\<rparr>"

text \<open>
  \<open>obj.GroupVersionKind().Kind\<close>: the library parses the apiVersion as group/version first
  and yields the empty GroupVersionKind when it has more than one slash.
\<close>

definition GroupVersionKind_Kind :: "Unstructured \<Rightarrow> string" where
  "GroupVersionKind_Kind u =
     (if count_list (GetAPIVersion u) (CHR ''/'') > 1 then [] else GetKind u)"

text \<open>An attestation material: a source URI and a digest set (\<open>map[string]string\<close>).\<close>

record AttestationMaterial =
  am_URI :: string
  am_Digest :: "string \<rightharpoonup> string"

text \<open>One provenance statement of a verification result.\<close>

record Provenance =
  pr_Artifact :: string
  pr_ArtifactType :: string
  pr_Hash :: string
  pr_AttestationMaterials :: "AttestationMaterial list"

record VerifyResult =
  vr_Resource :: Unstructured
  vr_Provenances :: "Provenance list"

record ManifestProvenanceInfo =
  mpi_Artifact :: string
  mpi_CommitID :: string
  mpi_GitApiURL :: string
  mpi_Hash :: string
  mpi_GitRepo :: string

record ObservationResourceResult =
  orr_Kind :: string
  orr_Namespace :: string
  orr_Name :: string
  orr_Resource :: Unstructured
  orr_ManifestProvenanceInfo :: "ManifestProvenanceInfo list"

record ManifestProvenanceResult =
  mpr_GitRepo :: string
  mpr_GitApiURL :: string
  mpr_CommitID :: string
  mpr_CommitDate :: string
  mpr_Author :: string
  mpr_Files :: "string list"
  mpr_Hash :: string
  mpr_Artifact :: string

text \<open>
  A stored result of the previous cycle. Its declaration is outside the files at hand:
  the three identity fields are the ones the source reads, the other two follow the
  specification's data model (resource body, list of resolved provenance results).
\<close>

record FinalObservationResourceResult =
  for_Kind :: string
  for_Namespace :: string
  for_Name :: string
  for_Resource :: Unstructured
  for_ManifestProvenanceResult :: "ManifestProvenanceResult list"

definition FinalObservationResourceResult_zero :: FinalObservationResourceResult where
  "FinalObservationResourceResult_zero =
     \<lparr>for_Kind = [], for_Namespace = [], for_Name = [],
      for_Resource = Unstructured_zero, for_ManifestProvenanceResult = []\<rparr>"

definition ManifestProvenanceResult_zero :: ManifestProvenanceResult where
  "ManifestProvenanceResult_zero =
     \<lparr>mpr_GitRepo = [], mpr_GitApiURL = [], mpr_CommitID = [], mpr_CommitDate = [],
      mpr_Author = [], mpr_Files = [], mpr_Hash = [], mpr_Artifact = []\<rparr>"

section \<open>Provenance extraction\<close>

definition getCommitID :: "(string \<rightharpoonup> string) \<Rightarrow> string" where
  "getCommitID digest = (case digest ''commit'' of Some val \<Rightarrow> val | None \<Rightarrow> [])"

text \<open>The body of the inner loop: the record built from a statement and one material.\<close>

definition newManifestProvenanceInfo :: "Provenance \<Rightarrow> AttestationMaterial \<Rightarrow> ManifestProvenanceInfo" where
  "newManifestProvenanceInfo pr am =
     (let commitID = getCommitID (am_Digest am);
          url = convertToCommitDetailURL (am_URI am) commitID
      in \<lparr>mpi_Artifact = pr_Artifact pr, mpi_CommitID = commitID, mpi_GitApiURL = url,
          mpi_Hash = pr_Hash pr, mpi_GitRepo = am_URI am\<rparr>)"

definition appendInfo :: "Provenance \<Rightarrow> AttestationMaterial \<Rightarrow> ObservationResourceResult \<Rightarrow> ObservationResourceResult" where
  "appendInfo pr am resourceLog =
     resourceLog\<lparr>orr_ManifestProvenanceInfo :=
       orr_ManifestProvenanceInfo resourceLog @ [newManifestProvenanceInfo pr am]\<rparr>"

text \<open>
  One round of the outer loop. \<open>manifestImage\<close> stands for the library constant
  \<open>k8smnfutil.ArtifactManifestImage\<close>, whose value is not in the files at hand.
\<close>

definition provenanceStep :: "string \<Rightarrow> Provenance \<Rightarrow> ObservationResourceResult \<Rightarrow> ObservationResourceResult" where
  "provenanceStep manifestImage pr resourceLog =
     (if pr_ArtifactType pr \<noteq> manifestImage then resourceLog
      else if length (pr_AttestationMaterials pr) \<noteq> 0
           then fold (appendInfo pr) (pr_AttestationMaterials pr) resourceLog
           else resourceLog)"

definition GetProvenanceFromVerifyResourceResult :: "string \<Rightarrow> VerifyResult \<Rightarrow> ObservationResourceResult" where
  "GetProvenanceFromVerifyResourceResult manifestImage res =
     (let resourceLog =
            \<lparr>orr_Kind = GroupVersionKind_Kind (vr_Resource res),
             orr_Namespace = GetNamespace (vr_Resource res),
             orr_Name = GetName (vr_Resource res),
             orr_Resource = vr_Resource res,
             orr_ManifestProvenanceInfo = []\<rparr>
      in if length (vr_Provenances res) = 0 then resourceLog
         else fold (provenanceStep manifestImage) (vr_Provenances res) resourceLog)"

section \<open>Lookups in the previous cycle's results\<close>

fun getTargetResourceLog ::
  "ObservationResourceResult \<Rightarrow> FinalObservationResourceResult list \<Rightarrow> bool \<times> FinalObservationResourceResult" where
  "getTargetResourceLog res [] = (False, FinalObservationResourceResult_zero)"
| "getTargetResourceLog res (lres # lastResults) =
     (if for_Kind lres = orr_Kind res \<and> for_Namespace lres = orr_Namespace res
         \<and> for_Name lres = orr_Name res
      then (True, lres)
      else getTargetResourceLog res lastResults)"

fun getTargetProvenanceLog ::
  "ManifestProvenanceInfo \<Rightarrow> ManifestProvenanceResult list \<Rightarrow> bool \<times> ManifestProvenanceResult" where
  "getTargetProvenanceLog new [] = (False, ManifestProvenanceResult_zero)"
| "getTargetProvenanceLog new (prov # lastProvs) =
     (if mpr_GitRepo prov = mpi_GitRepo new then (True, prov)
      else getTargetProvenanceLog new lastProvs)"

text \<open>The identity of a result: the three fields the lookup compares.\<close>

definition sameIdentity :: "ObservationResourceResult \<Rightarrow> FinalObservationResourceResult \<Rightarrow> bool" where
  "sameIdentity res lres \<longleftrightarrow>
     for_Kind lres = orr_Kind res \<and> for_Namespace lres = orr_Namespace res
     \<and> for_Name lres = orr_Name res"

section \<open>Run-time panics\<close>

text \<open>
  The two panics the functions under verification can raise: a field or method reached
  through a nil pointer, and a single-value type assertion on a value of another
  dynamic type. No function of the file recovers from a panic, so a panic is the outcome
  of the call, \<open>Inl\<close> of a sum.
\<close>

datatype panic = NilPointerDereference | InterfaceConversion

section \<open>The manifest locator\<close>

text \<open>
  \<open>getManifestYaml\<close> calls the image and YAML libraries, which are not among the files at
  hand. They are parameters of the model, collected in one record. A call that returns
  an error in Go returns \<open>None\<close> here (the source only tests \<open>err != nil\<close>), and
  \<open>ConcatenateYAMLs\<close> returns \<open>None\<close> for Go's \<open>nil\<close>. Raw documents and concatenated
  bundles are byte strings.

  \<open>yaml.Unmarshal(manifest, &mnfObj)\<close> with \<open>mnfObj\<close> a nil \<open>*unstructured.Unstructured\<close> has
  three outcomes: an error; no error and the pointer still nil (a document that is YAML
  \<open>null\<close>, or empty); no error and a decoded object.
\<close>

datatype decoded = DecodeError | DecodedNil | Decoded Unstructured

record 'image libraries =
  PullImage :: "string \<Rightarrow> 'image option"
  GenerateConcatYAMLsFromImage :: "'image \<Rightarrow> string option"
  yaml_Marshal :: "Unstructured \<Rightarrow> string option"
  yaml_Unmarshal :: "string \<Rightarrow> decoded"
  SplitConcatYAMLs :: "string \<Rightarrow> string list"
  ConcatenateYAMLs :: "string list \<Rightarrow> string option"
  ManifestSearchByGVKNameNamespace ::
    "string \<Rightarrow> string \<Rightarrow> string \<Rightarrow> string \<Rightarrow> string \<Rightarrow> bool \<times> string option"
  ManifestSearchByContent :: "string \<Rightarrow> string \<Rightarrow> bool \<times> string option"

text \<open>
  The loop that keeps the documents whose kind is the object's kind. After a decoding
  error it goes on to the next document; otherwise it calls \<open>mnfObj.GetKind()\<close>, which
  reads through the pointer, nil or not.
\<close>

fun kindMatchedYAMLs ::
  "(string \<Rightarrow> decoded) \<Rightarrow> string \<Rightarrow> string list \<Rightarrow> string list \<Rightarrow> panic + string list" where
  "kindMatchedYAMLs decode kind [] acc = Inr acc"
| "kindMatchedYAMLs decode kind (manifest # yamls) acc =
     (case decode manifest of
        DecodeError \<Rightarrow> kindMatchedYAMLs decode kind yamls acc
      | DecodedNil \<Rightarrow> Inl NilPointerDereference
      | Decoded mnfObj \<Rightarrow>
          if kind = GetKind mnfObj
          then kindMatchedYAMLs decode kind yamls (acc @ [manifest])
          else kindMatchedYAMLs decode kind yamls acc)"

definition getManifestYaml ::
  "'image libraries \<Rightarrow> string \<Rightarrow> Unstructured \<Rightarrow> panic + bool \<times> string option" where
  "getManifestYaml L imageRef obj =
     (case PullImage L imageRef of
        None \<Rightarrow> Inr (False, None)
      | Some img \<Rightarrow>
     (case GenerateConcatYAMLsFromImage L img of
        None \<Rightarrow> Inr (False, None)
      | Some concatYAMLbytes \<Rightarrow>
     (case yaml_Marshal L obj of
        None \<Rightarrow> Inr (False, None)
      | Some objBytes \<Rightarrow>
     (let apiVersion = GetAPIVersion obj;
          kind = GetKind obj;
          name = GetName obj;
          namespace = GetNamespace obj;
          yamls = SplitConcatYAMLs L concatYAMLbytes
      in case kindMatchedYAMLs (yaml_Unmarshal L) kind yamls [] of
           Inl p \<Rightarrow> Inl p
         | Inr kindMatched \<Rightarrow>
     (if length kindMatched = 0 then Inr (False, None)
      else
     (case ConcatenateYAMLs L kindMatched of
        None \<Rightarrow> Inr (False, None)
      | Some candidateManifestBytes \<Rightarrow>
     (case ManifestSearchByGVKNameNamespace L candidateManifestBytes apiVersion kind name namespace of
        (True, foundBytes) \<Rightarrow> Inr (True, foundBytes)
      | (False, _) \<Rightarrow>
     (case ManifestSearchByContent L candidateManifestBytes objBytes of
        (True, foundBytes) \<Rightarrow> Inr (True, foundBytes)
      | (False, _) \<Rightarrow> Inr (False, None)))))))))"

text \<open>
  A document matches the object by identity when it decodes to an object with the same
  apiVersion, kind, name and namespace; it matches a kind when it decodes to an object
  of that kind.
\<close>

definition identityMatches :: "(string \<Rightarrow> decoded) \<Rightarrow> Unstructured \<Rightarrow> string \<Rightarrow> bool" where
  "identityMatches decode obj manifest =
     (case decode manifest of
        Decoded mnfObj \<Rightarrow>
          GetAPIVersion mnfObj = GetAPIVersion obj \<and> GetKind mnfObj = GetKind obj
          \<and> GetName mnfObj = GetName obj \<and> GetNamespace mnfObj = GetNamespace obj
      | _ \<Rightarrow> False)"

definition kindMatches :: "(string \<Rightarrow> decoded) \<Rightarrow> string \<Rightarrow> string \<Rightarrow> bool" where
  "kindMatches decode kind manifest =
     (case decode manifest of Decoded mnfObj \<Rightarrow> kind = GetKind mnfObj | _ \<Rightarrow> False)"

text \<open>Some document of the list leaves the object pointer nil.\<close>

definition hasNilDocument :: "(string \<Rightarrow> decoded) \<Rightarrow> string list \<Rightarrow> bool" where
  "hasNilDocument decode yamls = list_ex (\<lambda>manifest. decode manifest = DecodedNil) yamls"

subsection \<open>A small bundle to run the locator on\<close>

text \<open>
  Three manifests and the objects they decode to, and a document that is YAML \<open>null\<close>.
  The libraries of the example pull any image reference to the given documents, joined
  at separator lines, and split that text into the documents again. Their identity search
  answers with the \<open>web\<close> manifest when it is asked for the Deployment \<open>web\<close> and the
  documents hold it; their content search always answers with the \<open>api\<close> manifest.
\<close>

definition example_web :: string where
  "example_web = ''{apiVersion: apps/v1, kind: Deployment, metadata: {name: web, namespace: default}}''"

definition example_api :: string where
  "example_api = ''{apiVersion: apps/v1, kind: Deployment, metadata: {name: api, namespace: default}}''"

definition example_config :: string where
  "example_config = ''{apiVersion: v1, kind: ConfigMap, metadata: {name: settings, namespace: default}}''"

definition example_null :: string where
  "example_null = ''null''"

definition example_separator :: string where
  "example_separator = [CHR 0x0A] @ ''---'' @ [CHR 0x0A]"

definition example_deployment :: "string \<Rightarrow> Unstructured" where
  "example_deployment n =
     \<lparr>GetAPIVersion = ''apps/v1'', GetKind = ''Deployment'', GetName = n,
      GetNamespace = ''default''\<rparr>"

definition example_decode :: "string \<Rightarrow> decoded" where
  "example_decode manifest =
     (if manifest = example_web then Decoded (example_deployment ''web'')
      else if manifest = example_api then Decoded (example_deployment ''api'')
      else if manifest = example_config
      then Decoded \<lparr>GetAPIVersion = ''v1'', GetKind = ''ConfigMap'', GetName = ''settings'',
                    GetNamespace = ''default''\<rparr>
      else if manifest = example_null then DecodedNil
      else DecodeError)"

fun example_join :: "string list \<Rightarrow> string" where
  "example_join [] = []"
| "example_join [y] = y"
| "example_join (y # ys) = y @ example_separator @ example_join ys"

definition example_libraries :: "string list \<Rightarrow> string libraries" where
  "example_libraries docs =
     \<lparr>PullImage = (\<lambda>imageRef. Some ''image''),
      GenerateConcatYAMLsFromImage = (\<lambda>img. Some (example_join docs)),
      yaml_Marshal = (\<lambda>obj. Some (''kind: '' @ GetKind obj @ '', name: '' @ GetName obj)),
      yaml_Unmarshal = example_decode,
      SplitConcatYAMLs =
        (\<lambda>concatYAMLbytes. if concatYAMLbytes = example_join docs then docs else []),
      ConcatenateYAMLs = (\<lambda>yamls. Some (example_join yamls)),
      ManifestSearchByGVKNameNamespace =
        (\<lambda>candidates apiVersion kind name namespace.
           if candidates = example_join docs \<and> example_web \<in> set docs
              \<and> apiVersion = ''apps/v1'' \<and> kind = ''Deployment'' \<and> name = ''web''
              \<and> namespace = ''default''
           then (True, Some example_web) else (False, None)),
      ManifestSearchByContent = (\<lambda>candidates objBytes. (True, Some example_api))\<rparr>"

section \<open>The commit resolver\<close>

subsection \<open>Decoded JSON\<close>

text \<open>
  A value decoded by \<open>encoding/json\<close> into \<open>interface{}\<close>: nil, a bool, a number (kept
  as its literal, the code never reads one), a string, a slice or a
  \<open>map[string]interface{}\<close>. The association list of \<open>JObject\<close> stands for the Go map
  that \<open>map_of\<close> reads from it.
\<close>

datatype json =
    JNull
  | JBool bool
  | JNumber string
  | JString string
  | JArray "json list"
  | JObject "(string \<times> json) list"

text \<open>\<open>m[key]\<close> on a map, nil or not: the value, or nil when the key is absent.\<close>

definition index_map :: "(string \<times> json) list \<Rightarrow> string \<Rightarrow> json" where
  "index_map m key = (case map_of m key of None \<Rightarrow> JNull | Some v \<Rightarrow> v)"

text \<open>The single-value type assertions \<open>v.(T)\<close>, which panic on any other dynamic type.\<close>

definition assert_map :: "json \<Rightarrow> panic + (string \<times> json) list" where
  "assert_map v = (case v of JObject m \<Rightarrow> Inr m | _ \<Rightarrow> Inl InterfaceConversion)"

definition assert_string :: "json \<Rightarrow> panic + string" where
  "assert_string v = (case v of JString x \<Rightarrow> Inr x | _ \<Rightarrow> Inl InterfaceConversion)"

definition assert_slice :: "json \<Rightarrow> panic + json list" where
  "assert_slice v = (case v of JArray xs \<Rightarrow> Inr xs | _ \<Rightarrow> Inl InterfaceConversion)"

text \<open>Sequencing: a panic ends the computation.\<close>

definition andThen :: "panic + 'a \<Rightarrow> ('a \<Rightarrow> panic + 'b) \<Rightarrow> panic + 'b" where
  "andThen r f = (case r of Inl p \<Rightarrow> Inl p | Inr x \<Rightarrow> f x)"

subsection \<open>The process and the world outside it\<close>

text \<open>
  What the resolver reads from and does to its surroundings. The process has an
  environment and the list of HTTP requests it has issued, oldest first. The world fixes
  which URLs \<open>http.NewRequest\<close> accepts, which byte strings are JSON and what they
  decode to, and how the network answers a request given the requests issued before
  it. \<open>Unmarshal_Statement\<close> is \<open>json.Unmarshal\<close> into a nil \<open>*in_toto.Statement\<close>: \<open>None\<close>
  when the pointer stays nil, otherwise the \<open>Predicate\<close> of the statement it allocated.
  Log and print lines are not part of the model, nor is the TLS configuration.
\<close>

record Request =
  rq_Method :: string
  rq_URL :: string
  rq_Header :: "(string \<times> string) list"

datatype http_result = TransportError | Response string

record world =
  url_Parse_ok :: "string \<Rightarrow> bool"
  json_parse :: "string \<Rightarrow> json option"
  Unmarshal_Statement :: "string \<Rightarrow> json option"
  roundTrip :: "Request list \<Rightarrow> Request \<Rightarrow> http_result"

record process =
  environ :: "string \<rightharpoonup> string"
  issued :: "Request list"

definition os_Getenv :: "process \<Rightarrow> string \<Rightarrow> string" where
  "os_Getenv s key = (case environ s key of None \<Rightarrow> [] | Some val \<Rightarrow> val)"

text \<open>\<open>http.NewRequest(method, url, nil)\<close>: a request with no header, or an error.\<close>

definition http_NewRequest :: "world \<Rightarrow> string \<Rightarrow> string \<Rightarrow> Request option" where
  "http_NewRequest W method url =
     (if url_Parse_ok W url then Some \<lparr>rq_Method = method, rq_URL = url, rq_Header = []\<rparr>
      else None)"

definition Header_Add :: "Request \<Rightarrow> string \<Rightarrow> string \<Rightarrow> Request" where
  "Header_Add req key val = req\<lparr>rq_Header := rq_Header req @ [(key, val)]\<rparr>"

text \<open>
  \<open>client.Get(url)\<close> makes a request of its own with \<open>http.NewRequest\<close> and sends that one.
  \<open>TransportError\<close> is the outcome with an error and a nil response; \<open>Response body\<close> is a
  response of any status, \<open>body\<close> being what \<open>ioutil.ReadAll\<close> returns for it.
\<close>

definition client_Get :: "world \<Rightarrow> string \<Rightarrow> process \<Rightarrow> http_result \<times> process" where
  "client_Get W url s =
     (case http_NewRequest W ''GET'' url of
        None \<Rightarrow> (TransportError, s)
      | Some req \<Rightarrow> (roundTrip W (issued s) req, s\<lparr>issued := issued s @ [req]\<rparr>))"

subsection \<open>Fetching and parsing a commit\<close>

text \<open>
  After a failed \<open>http.NewRequest\<close> the source adds a header to the nil request, and after a
  failed \<open>client.Get\<close> it reads the body of the nil response: both dereference nil. The
  request \<open>req\<close> that carries the Authorization header is built and not used again.
\<close>

definition accessGitRepo :: "world \<Rightarrow> string \<Rightarrow> string \<Rightarrow> process \<Rightarrow> (panic + string) \<times> process" where
  "accessGitRepo W url token s =
     (let bearer = ''Bearer '' @ token
      in case http_NewRequest W ''GET'' url of
           None \<Rightarrow> (Inl NilPointerDereference, s)
         | Some req0 \<Rightarrow>
             (let req = Header_Add req0 ''Authorization'' bearer
              in case client_Get W url s of
                   (TransportError, s') \<Rightarrow> (Inl NilPointerDereference, s')
                 | (Response body, s') \<Rightarrow> (Inr body, s')))"

record CommitData =
  cd_Commit :: string
  cd_Date :: string
  cd_Author :: string
  cd_Files :: "string list"

record Parent =
  pa_Commit :: string
  pa_URL :: string

text \<open>
  \<open>json.Unmarshal(body, &data)\<close> with \<open>data\<close> a nil \<open>map[string]interface{}\<close>: a JSON object
  fills the map; on any error, and on the literal \<open>null\<close>, the map stays nil. The source
  prints the error and goes on with the map.
\<close>

definition Unmarshal_map :: "world \<Rightarrow> string \<Rightarrow> (string \<times> json) list" where
  "Unmarshal_map W body = (case json_parse W body of Some (JObject m) \<Rightarrow> m | _ \<Rightarrow> [])"

text \<open>The loop over \<open>files\<close>.\<close>

fun fileNamesOf :: "json list \<Rightarrow> string list \<Rightarrow> panic + string list" where
  "fileNamesOf [] fileNames = Inr fileNames"
| "fileNamesOf (file # files) fileNames =
     andThen (assert_map file) (\<lambda>m.
     andThen (assert_string (index_map m ''filename'')) (\<lambda>name.
     fileNamesOf files (fileNames @ [name])))"

definition getCommitInfoFromDetail :: "world \<Rightarrow> string \<Rightarrow> string \<Rightarrow> panic + CommitData" where
  "getCommitInfoFromDetail W body cmtid =
     (let data = Unmarshal_map W body
      in andThen (assert_map (index_map data ''commit'')) (\<lambda>commit.
         andThen (assert_map (index_map commit ''author'')) (\<lambda>authorMap.
         let author = index_map authorMap ''email''
         in andThen (if author \<noteq> JNull then assert_string author else Inr []) (\<lambda>authorStr.
            andThen (assert_map (index_map data ''commit'')) (\<lambda>commit'.
            andThen (assert_map (index_map commit' ''author'')) (\<lambda>authorMap'.
            let date = index_map authorMap' ''date''
            in andThen (assert_string date) (\<lambda>dateStr.
               andThen (assert_slice (index_map data ''files'')) (\<lambda>files.
               andThen (fileNamesOf files []) (\<lambda>fileNames.
               Inr \<lparr>cd_Commit = cmtid, cd_Date = dateStr, cd_Author = authorStr,
                    cd_Files = fileNames\<rparr>)))))))))"

text \<open>The loop over \<open>parents\<close>.\<close>

fun parentsOf :: "json list \<Rightarrow> Parent list \<Rightarrow> panic + Parent list" where
  "parentsOf [] result = Inr result"
| "parentsOf (parent # parents) result =
     andThen (assert_map parent) (\<lambda>m.
     andThen (assert_string (index_map m ''url'')) (\<lambda>url.
     andThen (assert_map parent) (\<lambda>m'.
     andThen (assert_string (index_map m' ''sha'')) (\<lambda>sha.
     parentsOf parents (result @ [\<lparr>pa_Commit = sha, pa_URL = url\<rparr>])))))"

definition getParentsFromDetail :: "world \<Rightarrow> string \<Rightarrow> panic + Parent list" where
  "getParentsFromDetail W body =
     (let data = Unmarshal_map W body
      in andThen (assert_slice (index_map data ''parents'')) (\<lambda>parents. parentsOf parents []))"

definition setNewManifestProvenanceResult ::
  "world \<Rightarrow> ManifestProvenanceInfo \<Rightarrow> process \<Rightarrow> (panic + ManifestProvenanceResult) \<times> process" where
  "setNewManifestProvenanceResult W prov s =
     (let token = os_Getenv s ''GIT_TOKEN''
      in case accessGitRepo W (mpi_GitApiURL prov) token s of
           (Inl p, s') \<Rightarrow> (Inl p, s')
         | (Inr data, s') \<Rightarrow>
             (case getCommitInfoFromDetail W data (mpi_CommitID prov) of
                Inl p \<Rightarrow> (Inl p, s')
              | Inr cmtd \<Rightarrow>
                  (Inr \<lparr>mpr_GitRepo = mpi_GitRepo prov, mpr_GitApiURL = mpi_GitApiURL prov,
                        mpr_CommitID = mpi_CommitID prov, mpr_CommitDate = cd_Date cmtd,
                        mpr_Author = cd_Author cmtd, mpr_Files = cd_Files cmtd,
                        mpr_Hash = mpi_Hash prov, mpr_Artifact = mpi_Artifact prov\<rparr>, s')))"

text \<open>
  The loop of \<open>getCommitInfo\<close> over the materials: the type assertions of one round, then
  the fetch and the parse; \<open>res\<close> collects the results.
\<close>

definition materialFields :: "json \<Rightarrow> panic + string \<times> string" where
  "materialFields m =
     andThen (assert_map m) (\<lambda>mm.
     let uri = index_map mm ''uri''
     in andThen (assert_map m) (\<lambda>mm'.
        let digest = index_map mm' ''digest''
        in andThen (assert_map digest) (\<lambda>dm.
           let commit = index_map dm ''commit''
           in andThen (assert_string commit) (\<lambda>commitStr.
              andThen (assert_string uri) (\<lambda>uriStr. Inr (uriStr, commitStr))))))"

fun commitInfoLoop ::
  "world \<Rightarrow> string \<Rightarrow> json list \<Rightarrow> CommitData list \<Rightarrow> process \<Rightarrow> (panic + CommitData list) \<times> process" where
  "commitInfoLoop W token [] res s = (Inr res, s)"
| "commitInfoLoop W token (m # ms) res s =
     (case materialFields m of
        Inl p \<Rightarrow> (Inl p, s)
      | Inr (uriStr, commitStr) \<Rightarrow>
          (let url = convertToCommitDetailURL uriStr commitStr
           in case accessGitRepo W url token s of
                (Inl p, s') \<Rightarrow> (Inl p, s')
              | (Inr data, s') \<Rightarrow>
                  (case getCommitInfoFromDetail W data commitStr of
                     Inl p \<Rightarrow> (Inl p, s')
                   | Inr cmtd \<Rightarrow> commitInfoLoop W token ms (res @ [cmtd]) s')))"

definition getCommitInfo :: "world \<Rightarrow> string \<Rightarrow> process \<Rightarrow> (panic + CommitData list) \<times> process" where
  "getCommitInfo W attestation s =
     (let token = os_Getenv s ''GIT_TOKEN''
      in case Unmarshal_Statement W attestation of
           None \<Rightarrow> (Inl NilPointerDereference, s)
         | Some predicate \<Rightarrow>
             (case assert_map predicate of
                Inl p \<Rightarrow> (Inl p, s)
              | Inr pm \<Rightarrow>
                  (let materials = index_map pm ''materials'';
                       materialsArray = (case materials of JArray xs \<Rightarrow> xs | _ \<Rightarrow> [])
                   in commitInfoLoop W token materialsArray [] s)))"

text \<open>The request that \<open>client.Get(url)\<close> puts on the network.\<close>

definition plainGet :: "string \<Rightarrow> Request" where
  "plainGet url = \<lparr>rq_Method = ''GET'', rq_URL = url, rq_Header = []\<rparr>"

subsection \<open>A small verification result and a small history\<close>

definition example_material :: AttestationMaterial where
  "example_material =
     \<lparr>am_URI = ''https://github.com/acme/app.git'', am_Digest = [''commit'' \<mapsto> ''abc123'']\<rparr>"

definition example_statement :: "string \<Rightarrow> AttestationMaterial list \<Rightarrow> Provenance" where
  "example_statement artifactType materials =
     \<lparr>pr_Artifact = ''registry.example/manifests:v1'', pr_ArtifactType = artifactType,
      pr_Hash = ''sha256:1111'', pr_AttestationMaterials = materials\<rparr>"

definition example_info :: ManifestProvenanceInfo where
  "example_info =
     \<lparr>mpi_Artifact = ''registry.example/manifests:v1'', mpi_CommitID = ''abc123'',
      mpi_GitApiURL = ''https://api.github.com/repos/acme/app/commits/abc123'',
      mpi_Hash = ''sha256:1111'', mpi_GitRepo = ''https://github.com/acme/app.git''\<rparr>"

definition example_stored :: "string \<Rightarrow> ManifestProvenanceResult list \<Rightarrow> FinalObservationResourceResult" where
  "example_stored n provs =
     \<lparr>for_Kind = ''Deployment'', for_Namespace = ''default'', for_Name = n,
      for_Resource = example_deployment n, for_ManifestProvenanceResult = provs\<rparr>"

definition example_observed :: "string \<Rightarrow> ObservationResourceResult" where
  "example_observed n =
     \<lparr>orr_Kind = ''Deployment'', orr_Namespace = ''default'', orr_Name = n,
      orr_Resource = example_deployment n, orr_ManifestProvenanceInfo = []\<rparr>"

subsection \<open>A small world to run the resolver in\<close>

text \<open>
  Three response bodies and what they decode to: a commit with one changed file, the
  same commit with two, and a commit without the \<open>files\<close> array. Any other body is
  taken not to be JSON. The network answers the n-th request with the n-th of the given answers and
  fails after the last one; a URL with a line feed in it does not parse.
\<close>

definition example_body :: string where
  \<open>example_body = ''{"commit": {"author": {"email": "dev@acme.example", "date": "2021-08-13T08:34:59Z"}}, "files": [{"filename": "deploy/web.yaml"}]}''\<close>

definition example_body_later :: string where
  \<open>example_body_later = ''{"commit": {"author": {"email": "dev@acme.example", "date": "2021-08-13T08:34:59Z"}}, "files": [{"filename": "deploy/web.yaml"}, {"filename": "deploy/api.yaml"}]}''\<close>

definition example_body_nofiles :: string where
  \<open>example_body_nofiles = ''{"commit": {"author": {"email": "dev@acme.example", "date": "2021-08-13T08:34:59Z"}}}''\<close>

definition example_commit :: json where
  "example_commit =
     JObject [(''author'', JObject [(''email'', JString ''dev@acme.example''),
                                    (''date'', JString ''2021-08-13T08:34:59Z'')])]"

definition example_file :: "string \<Rightarrow> json" where
  "example_file n = JObject [(''filename'', JString n)]"

definition example_parse :: "string \<Rightarrow> json option" where
  "example_parse body =
     (if body = example_body
      then Some (JObject [(''commit'', example_commit),
                          (''files'', JArray [example_file ''deploy/web.yaml''])])
      else if body = example_body_later
      then Some (JObject [(''commit'', example_commit),
                          (''files'', JArray [example_file ''deploy/web.yaml'',
                                              example_file ''deploy/api.yaml''])])
      else if body = example_body_nofiles
      then Some (JObject [(''commit'', example_commit)])
      else None)"

text \<open>An attestation with two materials, and the predicate it decodes to.\<close>

definition example_attestation :: string where
  \<open>example_attestation = ''{"_type": "https://in-toto.io/Statement/v0.1", "predicate": {"materials": [{"uri": "https://github.com/acme/app.git", "digest": {"commit": "abc123"}}, {"uri": "https://github.com/acme/lib.git", "digest": {"commit": "def456"}}]}}''\<close>

definition example_predicate :: json where
  "example_predicate =
     JObject [(''materials'', JArray
       [JObject [(''uri'', JString ''https://github.com/acme/app.git''),
                 (''digest'', JObject [(''commit'', JString ''abc123'')])],
        JObject [(''uri'', JString ''https://github.com/acme/lib.git''),
                 (''digest'', JObject [(''commit'', JString ''def456'')])]])]"

definition example_world :: "http_result list \<Rightarrow> world" where
  "example_world answers =
     \<lparr>url_Parse_ok = (\<lambda>url. CHR 0x0A \<notin> set url),
      json_parse = example_parse,
      Unmarshal_Statement =
        (\<lambda>attestation. if attestation = example_attestation then Some example_predicate
                        else None),
      roundTrip = (\<lambda>earlier req. if length earlier < length answers
                                   then answers ! length earlier else TransportError)\<rparr>"

definition example_process :: "Request list \<Rightarrow> process" where
  "example_process reqs = \<lparr>environ = [''GIT_TOKEN'' \<mapsto> ''ghp_example''], issued = reqs\<rparr>"

definition example_request :: Request where
  "example_request =
     \<lparr>rq_Method = ''GET'', rq_URL = ''https://api.github.com/repos/acme/app/commits/abc123'',
      rq_Header = []\<rparr>"

definition example_result :: "string list \<Rightarrow> ManifestProvenanceResult" where
  "example_result files =
     \<lparr>mpr_GitRepo = ''https://github.com/acme/app.git'',
      mpr_GitApiURL = ''https://api.github.com/repos/acme/app/commits/abc123'',
      mpr_CommitID = ''abc123'', mpr_CommitDate = ''2021-08-13T08:34:59Z'',
      mpr_Author = ''dev@acme.example'', mpr_Files = files,
      mpr_Hash = ''sha256:1111'', mpr_Artifact = ''registry.example/manifests:v1''\<rparr>"

section \<open>Facts about the replacement\<close>

lemma prefix_within:
  "prefix old (xs @ ys) \<Longrightarrow> length old \<le> length xs \<Longrightarrow> prefix old xs"
  by (metis prefix_def append_eq_append_conv_if append_take_drop_id)

lemma Replace1_at_first_occurrence:
  assumes "old \<noteq> []" and "\<not> strings_Contains (p @ butlast old) old"
  shows "strings_Replace1 (p @ old @ q) old new = p @ new @ q"
  using assms(2)
proof (induction p)
  case Nil
  from assms(1) obtain c cs where old: "old = c # cs" by (cases old) auto
  show ?case by (simp add: old)
next
  case (Cons a p)
  from Cons.prems have np: "\<not> prefix old (a # p @ butlast old)"
    and nc: "\<not> strings_Contains (p @ butlast old) old" by simp_all
  have "\<not> prefix old (a # p @ old @ q)"
  proof
    assume pf: "prefix old (a # p @ old @ q)"
    have split: "a # p @ old @ q = (a # p @ butlast old) @ ([last old] @ q)"
      using assms(1) by simp
    have len: "length old \<le> length (a # p @ butlast old)" by simp
    from pf have "prefix old ((a # p @ butlast old) @ ([last old] @ q))"
      by (simp only: split)
    from prefix_within [OF this len] np show False by contradiction
  qed
  with Cons.IH [OF nc] show ?case by simp
qed

lemma Replace1_absent:
  "\<not> strings_Contains s old \<Longrightarrow> strings_Replace1 s old new = s"
  by (induction s) auto

text \<open>
  Where the only \<open>.git\<close> of the URI is the trailing one and \<open>github.com\<close> occurs first as
  the host, the code builds the URL that the comment in the source gives.
\<close>

lemma convertToCommitDetailURL_sole_trailing_git:
  assumes "\<not> strings_Contains (pre @ ''github.co'') ''github.com''"
    and "\<not> strings_Contains (pre @ ''github.com'' @ mid @ ''.gi'') ''.git''"
  shows "convertToCommitDetailURL (pre @ ''github.com'' @ mid @ ''.git'') commit =
           pre @ ''api.github.com/repos'' @ mid @ ''/commits'' @ ''/'' @ commit"
proof -
  have one: "strings_Replace1 ((pre @ ''github.com'' @ mid) @ ''.git'' @ []) ''.git'' ''/commits''
               = (pre @ ''github.com'' @ mid) @ ''/commits'' @ []"
    by (rule Replace1_at_first_occurrence) (use assms(2) in simp_all)
  have two: "strings_Replace1 (pre @ ''github.com'' @ (mid @ ''/commits'')) ''github.com''
               ''api.github.com/repos'' = pre @ ''api.github.com/repos'' @ (mid @ ''/commits'')"
    by (rule Replace1_at_first_occurrence) (use assms(1) in simp_all)
  from one two show ?thesis
    by (simp add: convertToCommitDetailURL_def)
qed

text \<open>The example of the specification.\<close>

lemma convertToCommitDetailURL_spec_example:
  "convertToCommitDetailURL ''https://github.com/acme/app.git'' ''abc123'' =
     ''https://api.github.com/repos/acme/app/commits/abc123''"
  using convertToCommitDetailURL_sole_trailing_git [of "''https://''" "''/acme/app''" "''abc123''"]
  by simp

section \<open>Claims about the commit URLs\<close>

text \<open>
  C5 (what the code does). The code replaces the leftmost occurrence of \<open>.git\<close>, wherever
  it stands: for every URI \<open>p @ .git @ q\<close> whose leftmost \<open>.git\<close> is the one after \<open>p\<close>,
  whatever \<open>q\<close> is, and every commit id, the URL is built from \<open>p @ /commits @ q\<close>. So a
  \<open>.git\<close> inside the repository name is replaced and the trailing one is kept, where the
  comment in the source (and the specification) turn the trailing \<open>.git\<close> into \<open>/commits\<close>.
\<close>

theorem convertToCommitDetailURL_replaces_leftmost_git:
  assumes "\<not> strings_Contains (p @ ''.gi'') ''.git''"
  shows "convertToCommitDetailURL (p @ ''.git'' @ q) commit =
           strings_Replace1 (p @ ''/commits'' @ q) ''github.com'' ''api.github.com/repos''
             @ ''/'' @ commit"
proof -
  have "strings_Replace1 (p @ ''.git'' @ q) ''.git'' ''/commits'' = p @ ''/commits'' @ q"
    by (rule Replace1_at_first_occurrence) (use assms in simp_all)
  then show ?thesis
    by (simp add: convertToCommitDetailURL_def)
qed

text \<open>
  A repository named \<open>app.github.io\<close>: the leftmost \<open>.git\<close> is inside the name, and the
  code's URL is not the one with the trailing \<open>.git\<close> replaced.
\<close>

theorem convertToCommitDetailURL_replaces_leftmost_git_witness:
  "convertToCommitDetailURL ''https://github.com/acme/app.github.io.git'' ''abc123''
     = ''https://api.github.com/repos/acme/app/commitshub.io.git/abc123''
   \<and> spec_commitDetailURL ''https://github.com/acme/app.github.io.git'' ''abc123''
     = ''https://api.github.com/repos/acme/app.github.io/commits/abc123''
   \<and> convertToCommitDetailURL ''https://github.com/acme/app.github.io.git'' ''abc123''
     \<noteq> spec_commitDetailURL ''https://github.com/acme/app.github.io.git'' ''abc123''"
  using convertToCommitDetailURL_replaces_leftmost_git
          [of "''https://github.com/acme/app''" "''hub.io.git''" "''abc123''"]
  by (simp add: spec_commitDetailURL_def suffix_def)

text \<open>
  C10. For every URI and commit, the commit-detail URL is the commit-history URL of the
  same URI followed by \<open>/\<close> and the commit.
\<close>

theorem detail_url_extends_history_url:
  "convertToCommitDetailURL uri commit = convertToCommitHistoryURL uri commit @ ''/'' @ commit"
  by (simp add: convertToCommitDetailURL_def convertToCommitHistoryURL_def)

section \<open>Facts about the extraction loops\<close>

lemma fold_appendInfo:
  "orr_ManifestProvenanceInfo (fold (appendInfo pr) ams resourceLog) =
     orr_ManifestProvenanceInfo resourceLog @ map (newManifestProvenanceInfo pr) ams"
  by (induction ams arbitrary: resourceLog) (simp_all add: appendInfo_def)

lemma provenanceStep_infos:
  "orr_ManifestProvenanceInfo (provenanceStep mi pr resourceLog) =
     orr_ManifestProvenanceInfo resourceLog @
       (if pr_ArtifactType pr = mi
        then map (newManifestProvenanceInfo pr) (pr_AttestationMaterials pr) else [])"
  by (simp add: provenanceStep_def fold_appendInfo)

lemma fold_provenanceStep:
  "orr_ManifestProvenanceInfo (fold (provenanceStep mi) prs resourceLog) =
     orr_ManifestProvenanceInfo resourceLog @
       concat (map (\<lambda>pr. map (newManifestProvenanceInfo pr) (pr_AttestationMaterials pr))
                 (filter (\<lambda>pr. pr_ArtifactType pr = mi) prs))"
  by (induction prs arbitrary: resourceLog) (simp_all add: provenanceStep_infos)

section \<open>Claims about the extraction\<close>

text \<open>
  C8. For every verification result, the extracted list holds exactly one
  ManifestProvenanceInfo per (statement, attestation material) pair of the statements
  whose artifact type is the manifest-image type, in input order (statements in order,
  each statement's materials in order) and without de-duplication; statements of another
  type contribute nothing. So its length is the number of such pairs.
\<close>

theorem extract_one_info_per_pair:
  "orr_ManifestProvenanceInfo (GetProvenanceFromVerifyResourceResult manifestImage res) =
     concat (map (\<lambda>pr. map (newManifestProvenanceInfo pr) (pr_AttestationMaterials pr))
               (filter (\<lambda>pr. pr_ArtifactType pr = manifestImage) (vr_Provenances res)))
   \<and> length (orr_ManifestProvenanceInfo (GetProvenanceFromVerifyResourceResult manifestImage res)) =
     sum_list (map (\<lambda>pr. length (pr_AttestationMaterials pr))
               (filter (\<lambda>pr. pr_ArtifactType pr = manifestImage) (vr_Provenances res)))"
proof -
  have eq: "orr_ManifestProvenanceInfo (GetProvenanceFromVerifyResourceResult manifestImage res) =
     concat (map (\<lambda>pr. map (newManifestProvenanceInfo pr) (pr_AttestationMaterials pr))
               (filter (\<lambda>pr. pr_ArtifactType pr = manifestImage) (vr_Provenances res)))"
    by (cases "vr_Provenances res")
       (simp_all add: GetProvenanceFromVerifyResourceResult_def Let_def fold_provenanceStep
          provenanceStep_infos)
  show ?thesis
    by (simp only: eq) (simp add: length_concat comp_def)
qed

text \<open>
  A manifest-image statement with the same material twice, then a statement of another
  type: two equal records come out, none for the second statement.
\<close>

theorem extract_one_info_per_pair_witness:
  "orr_ManifestProvenanceInfo
     (GetProvenanceFromVerifyResourceResult ''manifestImage''
        \<lparr>vr_Resource = example_deployment ''web'',
         vr_Provenances =
           [example_statement ''manifestImage'' [example_material, example_material],
            example_statement ''containerImage'' [example_material]]\<rparr>)
   = [example_info, example_info]"
  using extract_one_info_per_pair [of "''manifestImage''"
    "\<lparr>vr_Resource = example_deployment ''web'',
      vr_Provenances =
        [example_statement ''manifestImage'' [example_material, example_material],
         example_statement ''containerImage'' [example_material]]\<rparr>"]
  by (simp add: example_statement_def example_material_def example_info_def
        newManifestProvenanceInfo_def getCommitID_def convertToCommitDetailURL_def Let_def)

section \<open>Claims about the lookup by identity\<close>

text \<open>
  C9. For every observation result and every list of previous results, the lookup returns
  true exactly when some previous entry agrees with the result on kind, namespace and
  name, and then the entry returned is the first such entry of the list; otherwise it
  returns false with the zero-valued entry.
\<close>

theorem getTargetResourceLog_by_identity:
  "fst (getTargetResourceLog res lastResults) = (\<exists>lres \<in> set lastResults. sameIdentity res lres)
   \<and> getTargetResourceLog res lastResults =
       (case find (sameIdentity res) lastResults of
          Some lres \<Rightarrow> (True, lres)
        | None \<Rightarrow> (False, FinalObservationResourceResult_zero))"
  by (induction lastResults) (auto simp: sameIdentity_def)

text \<open>
  A history with \<open>api\<close> and two entries for \<open>web\<close>: the lookup of \<open>web\<close> returns the first
  of the two; the lookup of \<open>db\<close> returns false and the zero-valued entry.
\<close>

theorem getTargetResourceLog_by_identity_witness:
  "getTargetResourceLog (example_observed ''web'')
     [example_stored ''api'' [], example_stored ''web'' [ManifestProvenanceResult_zero],
      example_stored ''web'' []]
     = (True, example_stored ''web'' [ManifestProvenanceResult_zero])
   \<and> getTargetResourceLog (example_observed ''db'')
     [example_stored ''api'' [], example_stored ''web'' []]
     = (False, FinalObservationResourceResult_zero)"
  using getTargetResourceLog_by_identity [of "example_observed ''web''"
          "[example_stored ''api'' [], example_stored ''web'' [ManifestProvenanceResult_zero],
            example_stored ''web'' []]"]
        getTargetResourceLog_by_identity [of "example_observed ''db''"
          "[example_stored ''api'' [], example_stored ''web'' []]"]
  by (simp add: sameIdentity_def example_observed_def example_stored_def)

section \<open>Facts about the locator\<close>

lemma kindMatchedYAMLs_nil:
  "hasNilDocument decode yamls \<Longrightarrow>
     kindMatchedYAMLs decode kind yamls acc = Inl NilPointerDereference"
  by (induction yamls arbitrary: acc) (auto simp: hasNilDocument_def split: decoded.splits)

lemma kindMatchedYAMLs_filter:
  "\<not> hasNilDocument decode yamls \<Longrightarrow>
     kindMatchedYAMLs decode kind yamls acc = Inr (acc @ filter (kindMatches decode kind) yamls)"
  by (induction yamls arbitrary: acc)
     (auto simp: hasNilDocument_def kindMatches_def split: decoded.splits)

lemma kindMatchedYAMLs_eq:
  "kindMatchedYAMLs decode kind yamls acc =
     (if hasNilDocument decode yamls then Inl NilPointerDereference
      else Inr (acc @ filter (kindMatches decode kind) yamls))"
  by (simp add: kindMatchedYAMLs_nil kindMatchedYAMLs_filter)

lemma example_decodes:
  "example_decode example_web = Decoded (example_deployment ''web'')"
  "example_decode example_api = Decoded (example_deployment ''api'')"
  "example_decode example_config =
     Decoded \<lparr>GetAPIVersion = ''v1'', GetKind = ''ConfigMap'', GetName = ''settings'',
               GetNamespace = ''default''\<rparr>"
  "example_decode example_null = DecodedNil"
  by (simp_all add: example_decode_def example_web_def example_api_def example_config_def
        example_null_def)

lemma example_libraries_fields:
  "PullImage (example_libraries docs) imageRef = Some ''image''"
  "GenerateConcatYAMLsFromImage (example_libraries docs) img = Some (example_join docs)"
  "yaml_Marshal (example_libraries docs) (example_deployment ''web'')
     = Some ''kind: Deployment, name: web''"
  "yaml_Unmarshal (example_libraries docs) = example_decode"
  "SplitConcatYAMLs (example_libraries docs) (example_join docs) = docs"
  "ConcatenateYAMLs (example_libraries docs) yamls = Some (example_join yamls)"
  "ManifestSearchByGVKNameNamespace (example_libraries docs) (example_join docs)
     ''apps/v1'' ''Deployment'' ''web'' ''default''
     = (if example_web \<in> set docs then (True, Some example_web) else (False, None))"
  "ManifestSearchByContent (example_libraries docs) candidates objBytes = (True, Some example_api)"
  by (simp_all add: example_libraries_def example_deployment_def)

section \<open>Claims about the locator\<close>

text \<open>
  C7 (what the code does). For every bundle in which no document decodes to an object of
  the resource's kind, the empty bundle included: when every document decodes to an
  object or fails to decode, the locator returns found = false with no manifest bytes;
  when some document decodes with no error to a nil object (a \<open>null\<close> document), the
  kind-filter loop calls \<open>GetKind\<close> through the nil pointer and the call panics.
\<close>

theorem locate_without_kind_match:
  assumes "PullImage L imageRef = Some img"
    and "GenerateConcatYAMLsFromImage L img = Some bundleBytes"
    and "yaml_Marshal L obj = Some objBytes"
    and "\<forall>manifest \<in> set (SplitConcatYAMLs L bundleBytes).
           \<not> kindMatches (yaml_Unmarshal L) (GetKind obj) manifest"
  shows "getManifestYaml L imageRef obj =
           (if hasNilDocument (yaml_Unmarshal L) (SplitConcatYAMLs L bundleBytes)
            then Inl NilPointerDereference else Inr (False, None))"
proof -
  have none: "filter (kindMatches (yaml_Unmarshal L) (GetKind obj))
                (SplitConcatYAMLs L bundleBytes) = []"
    using assms(4) by (simp add: filter_empty_conv)
  show ?thesis
    using assms(1-3) by (simp add: getManifestYaml_def Let_def kindMatchedYAMLs_eq none)
qed

text \<open>
  A Deployment searched for in the empty bundle, and in a bundle that holds a \<open>null\<close>
  document and a ConfigMap.
\<close>

theorem locate_without_kind_match_witness:
  "getManifestYaml (example_libraries []) ''registry.example/manifests:v1''
     (example_deployment ''web'') = Inr (False, None)
   \<and> getManifestYaml (example_libraries [example_null, example_config])
       ''registry.example/manifests:v1'' (example_deployment ''web'')
     = Inl NilPointerDereference"
proof -
  let ?obj = "example_deployment ''web''"
  have kind: "GetKind ?obj = ''Deployment''"
    by (simp add: example_deployment_def)
  have empty: "getManifestYaml (example_libraries []) ''registry.example/manifests:v1'' ?obj
                 = Inr (False, None)"
    using locate_without_kind_match
            [where L = "example_libraries []" and imageRef = "''registry.example/manifests:v1''"
               and obj = ?obj and img = "''image''" and bundleBytes = "example_join []"
               and objBytes = "''kind: Deployment, name: web''"]
    by (simp add: example_libraries_fields hasNilDocument_def del: example_join.simps)
  have nil: "getManifestYaml (example_libraries [example_null, example_config])
               ''registry.example/manifests:v1'' ?obj = Inl NilPointerDereference"
    using locate_without_kind_match
            [where L = "example_libraries [example_null, example_config]"
               and imageRef = "''registry.example/manifests:v1''"
               and obj = ?obj and img = "''image''"
               and bundleBytes = "example_join [example_null, example_config]"
               and objBytes = "''kind: Deployment, name: web''"]
    by (simp add: example_libraries_fields hasNilDocument_def kindMatches_def example_decodes
          kind del: example_join.simps)
  from empty nil show ?thesis by simp
qed

text \<open>
  C6 (what the code does). For every bundle in which some document matches the resource by
  identity (the same apiVersion, kind, name and namespace): when some document of the
  bundle decodes with no error to a nil object, the call panics in the kind-filter loop
  and no manifest is returned; when none does, a hit of the library's identity search
  over the kind-filtered candidates is what the locator returns, whatever the content
  search would answer.
\<close>

theorem locate_with_identity_match:
  assumes pull: "PullImage L imageRef = Some img"
    and gen: "GenerateConcatYAMLsFromImage L img = Some bundleBytes"
    and marshal: "yaml_Marshal L obj = Some objBytes"
    and mem: "manifest \<in> set (SplitConcatYAMLs L bundleBytes)"
    and ident: "identityMatches (yaml_Unmarshal L) obj manifest"
  shows "(hasNilDocument (yaml_Unmarshal L) (SplitConcatYAMLs L bundleBytes) \<longrightarrow>
            getManifestYaml L imageRef obj = Inl NilPointerDereference)
       \<and> (\<not> hasNilDocument (yaml_Unmarshal L) (SplitConcatYAMLs L bundleBytes) \<longrightarrow>
            ConcatenateYAMLs L (filter (kindMatches (yaml_Unmarshal L) (GetKind obj))
                                  (SplitConcatYAMLs L bundleBytes)) = Some candidates \<longrightarrow>
            ManifestSearchByGVKNameNamespace L candidates (GetAPIVersion obj) (GetKind obj)
              (GetName obj) (GetNamespace obj) = (True, foundBytes) \<longrightarrow>
            getManifestYaml L imageRef obj = Inr (True, foundBytes))"
proof -
  from ident have "kindMatches (yaml_Unmarshal L) (GetKind obj) manifest"
    by (auto simp: identityMatches_def kindMatches_def split: decoded.splits)
  with mem have ne: "filter (kindMatches (yaml_Unmarshal L) (GetKind obj))
                       (SplitConcatYAMLs L bundleBytes) \<noteq> []"
    by (auto simp: filter_empty_conv)
  show ?thesis
    using pull gen marshal ne
    by (simp add: getManifestYaml_def Let_def kindMatchedYAMLs_eq)
qed

text \<open>
  The Deployment \<open>web\<close> searched for in a bundle that holds a \<open>null\<close> document and the
  \<open>web\<close> manifest, and in the bundle of the specification's scenario, the Deployments
  \<open>web\<close> and \<open>api\<close>, where the content search would answer \<open>api\<close>.
\<close>

theorem locate_with_identity_match_witness:
  "getManifestYaml (example_libraries [example_null, example_web])
     ''registry.example/manifests:v1'' (example_deployment ''web'') = Inl NilPointerDereference
   \<and> getManifestYaml (example_libraries [example_web, example_api])
       ''registry.example/manifests:v1'' (example_deployment ''web'')
     = Inr (True, Some example_web)
   \<and> ManifestSearchByContent (example_libraries [example_web, example_api])
       (example_join [example_web, example_api]) ''kind: Deployment, name: web''
     = (True, Some example_api)"
proof -
  let ?obj = "example_deployment ''web''"
  have fields: "GetKind (example_deployment n) = ''Deployment''"
    "GetAPIVersion (example_deployment n) = ''apps/v1''"
    "GetName (example_deployment n) = n" "GetNamespace (example_deployment n) = ''default''" for n
    by (simp_all add: example_deployment_def)
  have ident: "identityMatches example_decode ?obj example_web"
    by (simp add: identityMatches_def example_decodes)
  have nil: "getManifestYaml (example_libraries [example_null, example_web])
               ''registry.example/manifests:v1'' ?obj = Inl NilPointerDereference"
    using locate_with_identity_match
            [where L = "example_libraries [example_null, example_web]"
               and imageRef = "''registry.example/manifests:v1''"
               and obj = ?obj and img = "''image''"
               and bundleBytes = "example_join [example_null, example_web]"
               and objBytes = "''kind: Deployment, name: web''" and manifest = example_web]
          ident
    by (simp add: example_libraries_fields hasNilDocument_def example_decodes
          del: example_join.simps)
  have hit: "getManifestYaml (example_libraries [example_web, example_api])
               ''registry.example/manifests:v1'' ?obj = Inr (True, Some example_web)"
    using locate_with_identity_match
            [where L = "example_libraries [example_web, example_api]"
               and imageRef = "''registry.example/manifests:v1''"
               and obj = ?obj and img = "''image''"
               and bundleBytes = "example_join [example_web, example_api]"
               and objBytes = "''kind: Deployment, name: web''" and manifest = example_web
               and candidates = "example_join [example_web, example_api]"
               and foundBytes = "Some example_web"]
          ident
    by (simp add: example_libraries_fields hasNilDocument_def kindMatches_def example_decodes
          fields del: example_join.simps)
  from nil hit show ?thesis
    by (simp add: example_libraries_fields)
qed

section \<open>Facts about the resolver\<close>

lemma accessGitRepo_eq:
  "accessGitRepo W url token s =
     (if \<not> url_Parse_ok W url then (Inl NilPointerDereference, s)
      else case roundTrip W (issued s) (plainGet url) of
             TransportError \<Rightarrow>
               (Inl NilPointerDereference, s\<lparr>issued := issued s @ [plainGet url]\<rparr>)
           | Response body \<Rightarrow> (Inr body, s\<lparr>issued := issued s @ [plainGet url]\<rparr>))"
  by (simp add: accessGitRepo_def client_Get_def http_NewRequest_def plainGet_def Let_def
        split: http_result.splits)

lemma setNew_Inr:
  "setNewManifestProvenanceResult W prov s = (Inr r, s') \<longleftrightarrow>
     (\<exists>body cmtd. url_Parse_ok W (mpi_GitApiURL prov)
        \<and> roundTrip W (issued s) (plainGet (mpi_GitApiURL prov)) = Response body
        \<and> getCommitInfoFromDetail W body (mpi_CommitID prov) = Inr cmtd
        \<and> r = \<lparr>mpr_GitRepo = mpi_GitRepo prov, mpr_GitApiURL = mpi_GitApiURL prov,
                mpr_CommitID = mpi_CommitID prov, mpr_CommitDate = cd_Date cmtd,
                mpr_Author = cd_Author cmtd, mpr_Files = cd_Files cmtd,
                mpr_Hash = mpi_Hash prov, mpr_Artifact = mpi_Artifact prov\<rparr>
        \<and> s' = s\<lparr>issued := issued s @ [plainGet (mpi_GitApiURL prov)]\<rparr>)"
  unfolding setNewManifestProvenanceResult_def Let_def accessGitRepo_eq
  by (auto split: sum.splits http_result.splits)

lemma setNew_issued:
  "issued (snd (setNewManifestProvenanceResult W prov s)) =
     issued s @ (if url_Parse_ok W (mpi_GitApiURL prov) then [plainGet (mpi_GitApiURL prov)] else [])"
  unfolding setNewManifestProvenanceResult_def Let_def accessGitRepo_eq
  by (simp split: sum.splits http_result.splits)

lemma unparsed_body_panics:
  "json_parse W body = None \<Longrightarrow> getCommitInfoFromDetail W body cmtid = Inl InterfaceConversion"
  by (simp add: getCommitInfoFromDetail_def Unmarshal_map_def index_map_def assert_map_def
        andThen_def)

lemma absent_files_panics:
  "index_map (Unmarshal_map W body) ''files'' = JNull \<Longrightarrow>
     getCommitInfoFromDetail W body cmtid = Inl InterfaceConversion"
  by (simp add: getCommitInfoFromDetail_def Let_def andThen_def assert_map_def assert_string_def
        assert_slice_def split: sum.splits json.splits)

text \<open>A panic in one round of the loop of \<open>getCommitInfo\<close> ends the loop: the materials after it are not resolved.\<close>

lemma commitInfoLoop_panic_skips_rest:
  assumes "materialFields m = Inr (uriStr, commitStr)"
    and "accessGitRepo W (convertToCommitDetailURL uriStr commitStr) token s = (Inl p, s')"
  shows "commitInfoLoop W token (m # ms) res s = (Inl p, s')"
  using assms by simp

lemma example_bodies_differ:
  "example_body \<noteq> example_body_later" "example_body_later \<noteq> example_body"
  "example_body \<noteq> example_body_nofiles" "example_body_nofiles \<noteq> example_body"
  "example_body_later \<noteq> example_body_nofiles" "example_body_nofiles \<noteq> example_body_later"
  by (simp_all add: example_body_def example_body_later_def example_body_nofiles_def)

lemma example_world_fields:
  "url_Parse_ok (example_world answers) url \<longleftrightarrow> CHR 0x0A \<notin> set url"
  "json_parse (example_world answers) = example_parse"
  "Unmarshal_Statement (example_world answers) example_attestation = Some example_predicate"
  "roundTrip (example_world answers) earlier req =
     (if length earlier < length answers then answers ! length earlier else TransportError)"
  by (simp_all add: example_world_def)

lemma example_commit_data:
  "getCommitInfoFromDetail (example_world answers) example_body cmtid =
     Inr \<lparr>cd_Commit = cmtid, cd_Date = ''2021-08-13T08:34:59Z'', cd_Author = ''dev@acme.example'',
          cd_Files = [''deploy/web.yaml'']\<rparr>"
  "getCommitInfoFromDetail (example_world answers) example_body_later cmtid =
     Inr \<lparr>cd_Commit = cmtid, cd_Date = ''2021-08-13T08:34:59Z'', cd_Author = ''dev@acme.example'',
          cd_Files = [''deploy/web.yaml'', ''deploy/api.yaml'']\<rparr>"
  by (simp_all add: getCommitInfoFromDetail_def Unmarshal_map_def example_world_fields
        example_parse_def example_bodies_differ example_commit_def example_file_def
        index_map_def assert_map_def assert_string_def assert_slice_def andThen_def)

lemma example_resolution:
  "setNewManifestProvenanceResult (example_world [Response example_body, second])
     example_info (example_process []) =
     (Inr (example_result [''deploy/web.yaml'']), example_process [example_request])"
  "setNewManifestProvenanceResult (example_world [first, Response example_body])
     example_info (example_process [example_request]) =
     (Inr (example_result [''deploy/web.yaml'']), example_process [example_request, example_request])"
  "setNewManifestProvenanceResult (example_world [first, Response example_body_later])
     example_info (example_process [example_request]) =
     (Inr (example_result [''deploy/web.yaml'', ''deploy/api.yaml'']),
      example_process [example_request, example_request])"
  unfolding setNewManifestProvenanceResult_def Let_def accessGitRepo_eq
  by (simp_all add: example_world_fields example_info_def example_process_def example_request_def
        example_result_def plainGet_def example_commit_data)

text \<open>
  In the example world the first request fails and the second would be answered: the
  loop of \<open>getCommitInfo\<close> panics on the first material and never asks for the second.
\<close>

lemma getCommitInfo_first_failure_ends_the_loop:
  "getCommitInfo (example_world [TransportError, Response example_body]) example_attestation
     (example_process []) = (Inl NilPointerDereference, example_process [example_request])"
  unfolding getCommitInfo_def Let_def example_world_fields
  by (simp add: example_predicate_def assert_map_def index_map_def materialFields_def
        assert_string_def andThen_def accessGitRepo_eq example_world_fields
        convertToCommitDetailURL_def plainGet_def example_process_def example_request_def)

section \<open>Claims about the resolver\<close>

text \<open>
  C1 (as the code has it). The resolver has no cache. Take any two infos with the same
  (repoURL, commitID), each with the commit-detail URL that the extractor derives from
  the pair, resolved one after the other, both resolutions returning. Each resolution
  issues one GET to that URL, so the second resolution issues a second request. When the
  network answers the second GET as it answered the first, the second result has the
  commit id, date, author and files of the first: it is the first result with the hash
  and the artifact of the second info.
\<close>

theorem resolving_same_pair_fetches_twice:
  assumes first: "setNewManifestProvenanceResult W prov1 s = (Inr r1, s1)"
    and second: "setNewManifestProvenanceResult W prov2 s1 = (Inr r2, s2)"
    and repo: "mpi_GitRepo prov2 = mpi_GitRepo prov1"
    and commit: "mpi_CommitID prov2 = mpi_CommitID prov1"
    and url1: "mpi_GitApiURL prov1 =
                 convertToCommitDetailURL (mpi_GitRepo prov1) (mpi_CommitID prov1)"
    and url2: "mpi_GitApiURL prov2 =
                 convertToCommitDetailURL (mpi_GitRepo prov2) (mpi_CommitID prov2)"
  shows "issued s2 = issued s @
           [plainGet (convertToCommitDetailURL (mpi_GitRepo prov1) (mpi_CommitID prov1)),
            plainGet (convertToCommitDetailURL (mpi_GitRepo prov1) (mpi_CommitID prov1))]
       \<and> (roundTrip W (issued s1)
              (plainGet (convertToCommitDetailURL (mpi_GitRepo prov1) (mpi_CommitID prov1)))
            = roundTrip W (issued s)
              (plainGet (convertToCommitDetailURL (mpi_GitRepo prov1) (mpi_CommitID prov1)))
          \<longrightarrow> mpr_CommitID r2 = mpr_CommitID r1 \<and> mpr_CommitDate r2 = mpr_CommitDate r1
               \<and> mpr_Author r2 = mpr_Author r1 \<and> mpr_Files r2 = mpr_Files r1
               \<and> r2 = r1\<lparr>mpr_Hash := mpi_Hash prov2, mpr_Artifact := mpi_Artifact prov2\<rparr>)"
proof -
  from url1 url2 repo commit have same: "mpi_GitApiURL prov2 = mpi_GitApiURL prov1"
    by simp
  from first second show ?thesis
    unfolding setNew_Inr same commit repo url1
    by auto
qed

text \<open>
  Two infos of the same repository and commit, from two artifacts, on a network that
  gives the same answer twice: two requests, the same commit data.
\<close>

theorem resolving_same_pair_fetches_twice_witness:
  "setNewManifestProvenanceResult (example_world [Response example_body, Response example_body])
     example_info (example_process [])
     = (Inr (example_result [''deploy/web.yaml'']), example_process [example_request])
   \<and> setNewManifestProvenanceResult (example_world [Response example_body, Response example_body])
       (example_info\<lparr>mpi_Artifact := ''registry.example/manifests:v2'', mpi_Hash := ''sha256:2222''\<rparr>)
       (example_process [example_request])
     = (Inr ((example_result [''deploy/web.yaml''])
               \<lparr>mpr_Hash := ''sha256:2222'', mpr_Artifact := ''registry.example/manifests:v2''\<rparr>),
        example_process [example_request, example_request])
   \<and> issued (example_process [example_request, example_request])
     = issued (example_process []) @ [example_request, example_request]"
proof -
  let ?W = "example_world [Response example_body, Response example_body]"
  let ?info2 = "example_info\<lparr>mpi_Artifact := ''registry.example/manifests:v2'',
                              mpi_Hash := ''sha256:2222''\<rparr>"
  have first: "setNewManifestProvenanceResult ?W example_info (example_process [])
     = (Inr (example_result [''deploy/web.yaml'']), example_process [example_request])"
    by (rule example_resolution)
  have second: "setNewManifestProvenanceResult ?W ?info2 (example_process [example_request])
     = (Inr ((example_result [''deploy/web.yaml''])
               \<lparr>mpr_Hash := ''sha256:2222'', mpr_Artifact := ''registry.example/manifests:v2''\<rparr>),
        example_process [example_request, example_request])"
    unfolding setNewManifestProvenanceResult_def Let_def accessGitRepo_eq
    by (simp add: example_world_fields example_info_def example_process_def example_request_def
          example_result_def plainGet_def example_commit_data)
  have url: "mpi_GitApiURL example_info =
               convertToCommitDetailURL (mpi_GitRepo example_info) (mpi_CommitID example_info)"
    by (simp add: example_info_def convertToCommitDetailURL_def)
  have url2: "mpi_GitApiURL ?info2 =
                convertToCommitDetailURL (mpi_GitRepo ?info2) (mpi_CommitID ?info2)"
    by (simp add: example_info_def convertToCommitDetailURL_def)
  from resolving_same_pair_fetches_twice [OF first second _ _ url url2]
  have "issued (example_process [example_request, example_request])
     = issued (example_process []) @ [example_request, example_request]"
    by (simp add: plainGet_def example_info_def example_request_def convertToCommitDetailURL_def)
  with first second show ?thesis by simp
qed

text \<open>
  C1 as stated fails: the second resolution of the same info issues a second request, and
  when the network answers it differently the second result differs from the first.
\<close>

theorem second_resolution_fetches_again_counterexample:
  "setNewManifestProvenanceResult (example_world [Response example_body, Response example_body_later])
     example_info (example_process [])
     = (Inr (example_result [''deploy/web.yaml'']), example_process [example_request])
   \<and> setNewManifestProvenanceResult (example_world [Response example_body, Response example_body_later])
     example_info (example_process [example_request])
     = (Inr (example_result [''deploy/web.yaml'', ''deploy/api.yaml'']),
        example_process [example_request, example_request])
   \<and> issued (example_process [example_request, example_request]) \<noteq> issued (example_process [example_request])
   \<and> example_result [''deploy/web.yaml'', ''deploy/api.yaml''] \<noteq> example_result [''deploy/web.yaml'']"
  by (simp add: example_resolution) (simp add: example_process_def example_result_def)

text \<open>
  C2 (what the code does). A response body that is a JSON object without the \<open>files\<close> key
  makes the parse panic at the type assertion on \<open>data["files"]\<close>; no CommitData with an
  empty file list is returned.
\<close>

theorem missing_files_array_panics:
  assumes "json_parse W body = Some (JObject m)" and "map_of m ''files'' = None"
  shows "getCommitInfoFromDetail W body cmtid = Inl InterfaceConversion"
  using assms by (intro absent_files_panics) (simp add: Unmarshal_map_def index_map_def)

theorem missing_files_array_panics_witness:
  "json_parse (example_world []) example_body_nofiles = Some (JObject [(''commit'', example_commit)])
   \<and> map_of [(''commit'', example_commit)] ''files'' = None
   \<and> getCommitInfoFromDetail (example_world []) example_body_nofiles ''abc123''
       = Inl InterfaceConversion"
proof -
  have parsed: "json_parse (example_world []) example_body_nofiles
                  = Some (JObject [(''commit'', example_commit)])"
    by (simp add: example_world_fields example_parse_def example_bodies_differ)
  have absent: "map_of [(''commit'', example_commit)] ''files'' = None" by simp
  from missing_files_array_panics [OF parsed absent] parsed absent show ?thesis by simp
qed

text \<open>
  C3 (what the code does). When the GET fails in transport, or its response body is not
  JSON, the resolution of that entry ends in a panic: a nil dereference after the
  failed GET (or after a URL that does not parse), a failed type assertion on the
  undecoded body.
\<close>

theorem failed_resolution_panics:
  assumes "roundTrip W (issued s) (plainGet (mpi_GitApiURL prov)) = TransportError
           \<or> (\<exists>body. roundTrip W (issued s) (plainGet (mpi_GitApiURL prov)) = Response body
                 \<and> json_parse W body = None)"
  shows "fst (setNewManifestProvenanceResult W prov s) =
           Inl (if url_Parse_ok W (mpi_GitApiURL prov)
                   \<and> roundTrip W (issued s) (plainGet (mpi_GitApiURL prov)) \<noteq> TransportError
                then InterfaceConversion else NilPointerDereference)"
  using assms unfolding setNewManifestProvenanceResult_def Let_def accessGitRepo_eq
  by (auto simp: unparsed_body_panics)

text \<open>A network that is down, and one that answers with an error page.\<close>

theorem failed_resolution_panics_witness:
  "fst (setNewManifestProvenanceResult (example_world []) example_info (example_process []))
     = Inl NilPointerDereference
   \<and> fst (setNewManifestProvenanceResult (example_world [Response ''<html>Bad Gateway</html>''])
       example_info (example_process []))
     = Inl InterfaceConversion"
  using failed_resolution_panics [of "example_world []" "example_process []" example_info]
        failed_resolution_panics [of "example_world [Response ''<html>Bad Gateway</html>'']"
          "example_process []" example_info]
  by (simp add: example_world_fields example_process_def example_info_def example_parse_def
        example_body_def example_body_later_def example_body_nofiles_def)

text \<open>
  C4 (what the code does). Whatever the token, the one request a resolution issues is the
  GET that \<open>client.Get\<close> builds, with no header at all: the request to which the source adds
  the Authorization header is never sent.
\<close>

theorem resolver_request_carries_no_token:
  "issued (snd (setNewManifestProvenanceResult W prov s)) =
     issued s @ (if url_Parse_ok W (mpi_GitApiURL prov)
                 then [\<lparr>rq_Method = ''GET'', rq_URL = mpi_GitApiURL prov, rq_Header = []\<rparr>]
                 else [])"
  by (simp add: setNew_issued plainGet_def)

text \<open>With \<open>GIT_TOKEN\<close> set in the environment, the request on the network has no header.\<close>

theorem resolver_request_carries_no_token_witness:
  "os_Getenv (example_process []) ''GIT_TOKEN'' = ''ghp_example''
   \<and> issued (snd (setNewManifestProvenanceResult (example_world [Response example_body])
                    example_info (example_process [])))
     = [\<lparr>rq_Method = ''GET'', rq_URL = ''https://api.github.com/repos/acme/app/commits/abc123'',
         rq_Header = []\<rparr>]"
  using resolver_request_carries_no_token [of "example_world [Response example_body]"
          example_info "example_process []"]
  by (simp add: example_world_fields example_process_def example_info_def os_Getenv_def)

end
